theory Spec2Isabelle
  imports Complex_Main "HOL-Library.Sublist" "HOL-Library.Word"
begin

section \<open>JavaScript primitives used by the routes\<close>

text \<open>
  A JavaScript \<open>number\<close> is modelled by its exact value: header fields, sizes and
  coordinates are \<open>real\<close>, results of \<open>parseInt\<close> and database integers are \<open>int\<close>
  (\<open>None\<close> for \<open>NaN\<close>). Rounding of floating-point arithmetic and \<open>NaN\<close> header fields
  are outside the model.

  A template literal renders an integer of magnitude at most \<open>2 ^ 53\<close> by its decimal
  digits; the rendering of every other number (fractions, exponent notation) is a
  primitive of the language and is the parameter \<open>other\<close> below.
\<close>

definition digit_char :: "nat \<Rightarrow> char" where
  "digit_char d = ''0123456789'' ! d"

text \<open>The decimal digits of a natural number, the most significant first.\<close>

function decimal_digits :: "nat \<Rightarrow> string \<Rightarrow> string" where
  "decimal_digits n acc =
     (if n < 10 then digit_char n # acc
      else decimal_digits (n div 10) (digit_char (n mod 10) # acc))"
  by pat_completeness auto
termination
  by (relation "measure fst") auto

declare decimal_digits.simps [simp del]

definition decimal :: "nat \<Rightarrow> string" where
  "decimal n = decimal_digits n []"

definition signed_decimal :: "int \<Rightarrow> string" where
  "signed_decimal i = (if 0 \<le> i then decimal (nat i) else CHR ''-'' # decimal (nat (- i)))"

definition num_str :: "(real \<Rightarrow> string) \<Rightarrow> real \<Rightarrow> string" where
  "num_str other x =
     (if x = of_int \<lfloor>x\<rfloor> \<and> \<bar>x\<bar> \<le> 2 ^ 53 then signed_decimal \<lfloor>x\<rfloor> else other x)"

text \<open>\<open>parseInt\<close> results in a template literal: \<open>NaN\<close> or the number.\<close>

definition int_str :: "(real \<Rightarrow> string) \<Rightarrow> int option \<Rightarrow> string" where
  "int_str other v = (case v of None \<Rightarrow> ''NaN'' | Some i \<Rightarrow> num_str other (of_int i))"

text \<open>\<open>s.padStart(n, c)\<close> for a one-character filler \<open>c\<close>.\<close>

definition padStart :: "nat \<Rightarrow> char \<Rightarrow> string \<Rightarrow> string" where
  "padStart n c s = replicate (n - length s) c @ s"

text \<open>
  \<open>path.join\<close> on segments that need no normalisation (no empty, \<open>.\<close> or \<open>..\<close>
  segment): the segments separated by \<open>/\<close>.
\<close>

fun path_join :: "string list \<Rightarrow> string" where
  "path_join [] = ''.''"
| "path_join [s] = s"
| "path_join (s # ss) = s @ ''/'' @ path_join ss"

text \<open>
  Property lookup \<open>obj[k]\<close> on an object literal: an own property, else a property
  inherited from \<open>Object.prototype\<close> (a function, or the prototype object itself for
  \<open>__proto__\<close>), else \<open>undefined\<close>.
\<close>

datatype jsvalue = Undefined | Str string | Inherited string

definition object_prototype_keys :: "string list" where
  "object_prototype_keys =
     [''constructor'', ''__defineGetter__'', ''__defineSetter__'', ''hasOwnProperty'',
      ''__lookupGetter__'', ''__lookupSetter__'', ''isPrototypeOf'',
      ''propertyIsEnumerable'', ''toString'', ''valueOf'', ''__proto__'',
      ''toLocaleString'']"

definition object_get :: "(string \<times> string) list \<Rightarrow> string \<Rightarrow> jsvalue" where
  "object_get obj k =
     (case map_of obj k of
        Some v \<Rightarrow> Str v
      | None \<Rightarrow> if k \<in> set object_prototype_keys then Inherited k else Undefined)"

fun truthy :: "jsvalue \<Rightarrow> bool" where
  "truthy Undefined = False"
| "truthy (Str s) = (s \<noteq> [])"
| "truthy (Inherited k) = True"


section \<open>Tree identifiers (lib/db/trees.ts)\<close>

text \<open>
  The relational store, with the columns the functions below read or write. In table
  \<open>trees\<close>, \<open>tree_id\<close> is \<open>UNIQUE NOT NULL\<close>, \<open>orchard_id\<close> references \<open>orchards(id)\<close>,
  \<open>row_id\<close> is \<open>VARCHAR\<close> and \<open>position\<close> is \<open>INT\<close>; a \<open>NULL\<close> is \<open>None\<close>. Column
  \<open>id\<close> of \<open>orchards\<close> is the field \<open>id_col\<close>.
\<close>

record Orchard =
  id_col :: string
  name :: string
  location :: string
  center_lat :: real
  center_lng :: real

record Tree =
  tree_id :: string
  orchard_id :: "string option"
  row_id :: "string option"
  position :: "int option"

record database =
  orchards :: "Orchard list"
  trees :: "Tree list"

definition generateTreeId :: "(real \<Rightarrow> string) \<Rightarrow> string \<Rightarrow> string \<Rightarrow> int \<Rightarrow> string" where
  "generateTreeId other orchardId rowId pos =
     (let paddedRow = padStart 2 CHR ''0'' rowId;
          paddedPosition = padStart 3 CHR ''0'' (num_str other (of_int pos))
      in orchardId @ ''-R'' @ paddedRow @ ''-P'' @ paddedPosition)"

text \<open>
  \<open>SELECT id FROM trees WHERE orchard_id = $1 AND row_id = $2 AND position = $3 LIMIT 1\<close>,
  true when a row comes back. SQL equality on \<open>VARCHAR\<close> is equality of strings, and a
  \<open>NULL\<close> column equals nothing.
\<close>

definition checkDuplicateRowPosition :: "database \<Rightarrow> string \<Rightarrow> string \<Rightarrow> int \<Rightarrow> bool" where
  "checkDuplicateRowPosition db oid rid pos =
     (filter (\<lambda>t. orchard_id t = Some oid \<and> row_id t = Some rid \<and> position t = Some pos)
        (trees db) \<noteq> [])"

datatype insert_error =
  MissingRequiredFields
| TreeAlreadyExists string string int
| DatabaseRejected

text \<open>
  \<open>insertTree\<close>: the required-field check, the duplicate check, the generated
  identifier, then the \<open>INSERT\<close>, which the database rejects when the identifier is
  already in the table or the orchard is not. Every error is rethrown as
  \<open>Failed to insert tree: ...\<close>; the result is the new table or the error.
\<close>

definition insertTree ::
  "(real \<Rightarrow> string) \<Rightarrow> database \<Rightarrow> string \<Rightarrow> string \<Rightarrow> int option \<Rightarrow> insert_error + database"
where
  "insertTree other db oid rid pos_opt =
     (case pos_opt of
        None \<Rightarrow> Inl MissingRequiredFields
      | Some pos \<Rightarrow>
          if oid = [] \<or> rid = [] then Inl MissingRequiredFields
          else if checkDuplicateRowPosition db oid rid pos then Inl (TreeAlreadyExists oid rid pos)
          else
            let tid = generateTreeId other oid rid pos in
            if filter (\<lambda>t. tree_id t = tid) (trees db) \<noteq> []
               \<or> filter (\<lambda>r. id_col r = oid) (orchards db) = []
            then Inl DatabaseRejected
            else Inr (db\<lparr>trees := trees db @
                   [\<lparr>tree_id = tid, orchard_id = Some oid, row_id = Some rid,
                     position = Some pos\<rparr>]\<rparr>))"


section \<open>Tile route: GET /api/tiles/[orchard]/[z]/[x]/[y]\<close>

type_synonym byte = "8 word"

datatype body = Text string | Binary "byte list"

record response =
  status :: nat
  body :: body
  headers :: "(string \<times> string) list"

definition MBTILES_PATHS :: "string \<Rightarrow> (string \<times> string) list" where
  "MBTILES_PATHS cwd =
     [(''manytrees'', path_join [cwd, ''public/orchards/manytreesorchard/manytrees.mbtiles'']),
      (''washington'', path_join [cwd, ''public/orchards/washington/tiles/orthomap.mbtiles''])]"

text \<open>
  The sqlite3 package is a parameter: given the value passed as file name and the three
  bound parameters of
  \<open>SELECT tile_data FROM tiles WHERE zoom_level = ? AND tile_column = ? AND tile_row = ?\<close>
  it yields an error message (the data base cannot be opened or the query fails; the
  promise is rejected), no row, or a row whose \<open>tile_data\<close> is \<open>NULL\<close> or a buffer.
\<close>

type_synonym sqlite =
  "jsvalue \<Rightarrow> int option \<Rightarrow> int option \<Rightarrow> int option \<Rightarrow> string + (byte list option) option"

text \<open>\<open>tileData[i]\<close>: the byte, or \<open>undefined\<close> past the end of the buffer.\<close>

definition byte_at :: "byte list \<Rightarrow> nat \<Rightarrow> byte option" where
  "byte_at tileData i = (if i < length tileData then Some (tileData ! i) else None)"

definition contentType :: "byte list \<Rightarrow> string" where
  "contentType tileData =
     (if byte_at tileData 0 = Some 0x89 \<and> byte_at tileData 1 = Some 0x50 then ''image/png''
      else if byte_at tileData 0 = Some 0xFF \<and> byte_at tileData 1 = Some 0xD8 then ''image/jpeg''
      else if byte_at tileData 0 = Some 0x52 \<and> byte_at tileData 1 = Some 0x49 then ''image/webp''
      else ''application/octet-stream'')"

definition tmsY :: "int option \<Rightarrow> int option" where
  "tmsY tileY = tileY"

text \<open>
  The handler, from the parsed route parameters (\<open>zoom\<close>, \<open>tileX\<close>, \<open>tileY\<close> are what
  \<open>parseInt\<close> returned). A row without \<open>tile_data\<close> counts as no tile.
\<close>

definition GET ::
  "sqlite \<Rightarrow> (real \<Rightarrow> string) \<Rightarrow> string \<Rightarrow> string \<Rightarrow> int option \<Rightarrow> int option \<Rightarrow> int option
     \<Rightarrow> response"
where
  "GET sq other cwd orchard zoom tileX tileY =
     (let mbtilesPath = object_get (MBTILES_PATHS cwd) orchard in
      if \<not> truthy mbtilesPath
      then \<lparr>status = 404, body = Text (''Orchard '' @ [CHR 0x27] @ orchard @ [CHR 0x27] @ '' not found''),
            headers = []\<rparr>
      else
        case sq mbtilesPath zoom tileX (tmsY tileY) of
          Inl message \<Rightarrow>
            \<lparr>status = 500,
             body = Text (if message = [] then ''Internal server error'' else message),
             headers = []\<rparr>
        | Inr row \<Rightarrow>
            (case Option.bind row (\<lambda>tile_data. tile_data) of
               None \<Rightarrow>
                 \<lparr>status = 404,
                  body = Text (''Tile not found: '' @ int_str other zoom @ ''/''
                               @ int_str other tileX @ ''/'' @ int_str other tileY
                               @ '' (TMS: '' @ int_str other (tmsY tileY) @ '')''),
                  headers = []\<rparr>
             | Some tileData \<Rightarrow>
                 \<lparr>status = 200, body = Binary tileData,
                  headers = [(''Content-Type'', contentType tileData),
                             (''Cache-Control'', ''public, max-age=31536000, immutable''),
                             (''Access-Control-Allow-Origin'', ''*'')]\<rparr>))"


section \<open>Upload route: POST /api/orchards/create\<close>

subsection \<open>Header validation\<close>

record PMTilesHeader =
  minZoom :: real
  maxZoom :: real
  minLon :: "real option"
  minLat :: "real option"
  maxLon :: "real option"
  maxLat :: "real option"
  centerZoom :: real
  centerLon :: "real option"
  centerLat :: "real option"
  tileType :: real

datatype tile_kind = raster | vector

record Bounds =
  b_minLng :: real
  b_minLat :: real
  b_maxLng :: real
  b_maxLat :: real

record Center =
  lng :: real
  lat :: real

record Metadata =
  bounds :: Bounds
  center :: Center
  md_minZoom :: real
  md_maxZoom :: real
  md_tileType :: tile_kind

record ValidationResult =
  valid :: bool
  error :: "string option"
  warnings :: "string list option"
  metadata :: "Metadata option"

definition invalid :: "string \<Rightarrow> ValidationResult" where
  "invalid msg = \<lparr>valid = False, error = Some msg, warnings = None, metadata = None\<rparr>"

definition vector_warning :: string where
  "vector_warning =
     ''Vector PMTiles detected. This endpoint is optimized for raster/imagery tiles.''"

definition world_warning :: string where
  "world_warning =
     ''PMTiles appears to have world bounds. This may indicate incorrect georeferencing.''"

definition zoom_warning :: "(real \<Rightarrow> string) \<Rightarrow> real \<Rightarrow> string" where
  "zoom_warning other z =
     ''Max zoom capped at 21.5 (was '' @ num_str other z @ '') to prevent map rendering issues.''"

text \<open>
  \<open>validatePMTilesFile\<close>, from what \<open>await pmtiles.getHeader()\<close> gave: an exception with
  its message (\<open>Inl\<close>), no header (\<open>Inr None\<close>), or the header. A bound that is
  \<open>undefined\<close>, and a center coordinate that is \<open>null\<close> or \<open>undefined\<close>, is \<open>None\<close>.
\<close>

definition validatePMTilesFile ::
  "(real \<Rightarrow> string) \<Rightarrow> string + PMTilesHeader option \<Rightarrow> ValidationResult"
where
  "validatePMTilesFile other got =
     (case got of
        Inl message \<Rightarrow> invalid (''Failed to validate PMTiles: '' @ message)
      | Inr None \<Rightarrow> invalid ''Could not read PMTiles header''
      | Inr (Some header) \<Rightarrow>
          if tileType header \<noteq> 1 \<and> tileType header \<noteq> 2
          then invalid (''Unsupported tile type: '' @ num_str other (tileType header)
                        @ ''. Expected raster (1) or vector (2).'')
          else
            let kind = (if tileType header = 1 then raster else vector);
                warnings1 = (if tileType header = 1 then [] else [vector_warning])
            in
            (case (minLon header, minLat header, maxLon header, maxLat header) of
              (Some minLon', Some minLat', Some maxLon', Some maxLat') \<Rightarrow>
                let warnings2 =
                      (if minLon' \<le> -180 \<and> maxLon' \<ge> 180 \<and> minLat' \<le> -85 \<and> maxLat' \<ge> 85
                       then warnings1 @ [world_warning] else warnings1);
                    centerLng =
                      (case centerLon header of Some c \<Rightarrow> c | None \<Rightarrow> (minLon' + maxLon') / 2);
                    centerLat' =
                      (case centerLat header of Some c \<Rightarrow> c | None \<Rightarrow> (minLat' + maxLat') / 2);
                    maxZoom' = min (maxZoom header) 21.5;
                    warnings3 =
                      (if maxZoom header > 21.5
                       then warnings2 @ [zoom_warning other (maxZoom header)] else warnings2)
                in
                \<lparr>valid = True, error = None,
                 warnings = (if length warnings3 > 0 then Some warnings3 else None),
                 metadata = Some
                   \<lparr>bounds = \<lparr>b_minLng = minLon', b_minLat = minLat',
                              b_maxLng = maxLon', b_maxLat = maxLat'\<rparr>,
                    center = \<lparr>lng = centerLng, lat = centerLat'\<rparr>,
                    md_minZoom = minZoom header, md_maxZoom = maxZoom',
                    md_tileType = kind\<rparr>\<rparr>
            | _ \<Rightarrow> invalid ''PMTiles file does not contain valid geographic bounds''))"

subsection \<open>The check of a vector archive (lib/pmtiles-utils.ts)\<close>

text \<open>
  \<open>validatePMTiles\<close>, from what \<open>getHeader\<close>, \<open>getMetadata\<close> and the reading of the
  layer list gave: the message of an exception, or the metadata as the package parsed
  it (\<open>None\<close> for \<open>null\<close>). The header and the layers are only logged.
\<close>

record 'm PMTilesCheck =
  check_valid :: bool
  check_error :: "string option"
  check_metadata :: "'m option"

definition validatePMTiles :: "string + 'm option \<Rightarrow> 'm PMTilesCheck" where
  "validatePMTiles got =
     (case got of
        Inl message \<Rightarrow>
          \<lparr>check_valid = False,
           check_error = Some (if message = [] then ''Failed to load PMTiles file'' else message),
           check_metadata = None\<rparr>
      | Inr parsed \<Rightarrow>
          \<lparr>check_valid = True, check_error = None, check_metadata = parsed\<rparr>)"

subsection \<open>The ingestion flow\<close>

text \<open>
  \<open>x.toFixed(f)\<close> for \<open>\<bar>x\<bar> < 10 ^ 21\<close>: the nearest multiple of \<open>10 ^ - f\<close>, the
  larger one at a tie, written with \<open>f\<close> decimals.
\<close>

definition toFixed :: "nat \<Rightarrow> real \<Rightarrow> string" where
  "toFixed f x =
     (let s = (if x < 0 then ''-'' else []);
          n = nat \<lfloor>\<bar>x\<bar> * 10 ^ f + 1 / 2\<rfloor>;
          m = padStart (f + 1) CHR ''0'' (decimal n);
          k = length m
      in if f = 0 then s @ decimal n
         else s @ take (k - f) m @ ''.'' @ drop (k - f) m)"

text \<open>\<open>toLowerCase\<close> on ASCII text.\<close>

definition toLowerCase :: "string \<Rightarrow> string" where
  "toLowerCase s =
     map (\<lambda>c. if 65 \<le> (of_char c :: nat) \<and> (of_char c :: nat) \<le> 90
              then char_of (of_char c + 32 :: nat) else c) s"

definition alnum :: "char \<Rightarrow> bool" where
  "alnum c =
     ((97 \<le> (of_char c :: nat) \<and> (of_char c :: nat) \<le> 122)
      \<or> (48 \<le> (of_char c :: nat) \<and> (of_char c :: nat) \<le> 57))"

text \<open>
  \<open>.replace(/[^a-z0-9]+/g, '-')\<close>: every maximal run of other characters becomes one
  dash (the flag says that the run has begun).
\<close>

fun dashes :: "bool \<Rightarrow> string \<Rightarrow> string" where
  "dashes in_run [] = []"
| "dashes in_run (c # cs) =
     (if alnum c then c # dashes False cs
      else if in_run then dashes True cs
      else CHR ''-'' # dashes True cs)"

text \<open>\<open>.replace(/^-+|-+$/g, '')\<close>: the dashes at both ends are removed.\<close>

definition strip_dashes :: "string \<Rightarrow> string" where
  "strip_dashes s =
     rev (dropWhile (\<lambda>c. c = CHR ''-'') (rev (dropWhile (\<lambda>c. c = CHR ''-'') s)))"

definition orchardId_of :: "string \<Rightarrow> string" where
  "orchardId_of nm = strip_dashes (dashes False (toLowerCase nm))"

record upload =
  file_name :: string
  content :: string

text \<open>
  The request after \<open>auth()\<close> and \<open>request.formData()\<close>: whether there is a session, and
  the three form fields (\<open>None\<close> when the field is absent).
\<close>

record request =
  session :: bool
  form_name :: "string option"
  form_location :: "string option"
  form_pmtilesFile :: "upload option"

text \<open>
  What the flow can change: the relational store and the files (the uploaded archives
  and the configuration registry \<open>lib/orchards.ts\<close>). Directories are not modelled.
\<close>

record world =
  db :: database
  files :: "string \<Rightarrow> string option"

datatype details =
  NoDetails
| DetailsText string
| DetailsFields "string option" "string option" "string option"

datatype post_body =
  ErrorBody string details
| SuccessBody string string "string list option" Metadata string

record post_response =
  post_status :: nat
  post_body :: post_body

definition orchardExists :: "database \<Rightarrow> string \<Rightarrow> bool" where
  "orchardExists d i = (filter (\<lambda>r. id_col r = i) (orchards d) \<noteq> [])"

definition insertOrchard :: "database \<Rightarrow> Orchard \<Rightarrow> string + database" where
  "insertOrchard d orchardData =
     (if id_col orchardData = [] \<or> name orchardData = [] \<or> location orchardData = []
      then Inl (''Failed to insert orchard: ''
                @ ''Missing required fields: id, name, and location are required'')
      else if orchardExists d (id_col orchardData)
      then Inl (''Failed to insert orchard: Orchard with id '' @ [CHR 0x22]
                @ id_col orchardData @ [CHR 0x22] @ '' already exists'')
      else Inr (d\<lparr>orchards := orchards d @ [orchardData]\<rparr>))"

definition fileSizeInMB :: "upload \<Rightarrow> real" where
  "fileSizeInMB up = real (length (content up)) / (1024 * 1024)"

definition missing_fields :: "request \<Rightarrow> post_response" where
  "missing_fields req =
     \<lparr>post_status = 400,
      post_body = ErrorBody ''Missing required fields''
        (DetailsFields
           (if form_name req = None \<or> form_name req = Some []
            then Some ''Name is required'' else None)
           (if form_location req = None \<or> form_location req = Some []
            then Some ''Location is required'' else None)
           (if form_pmtilesFile req = None
            then Some ''PMTiles file is required'' else None))\<rparr>"

text \<open>
  The checks of the request that come before the archive is written to the temporary
  file: either the response that ends the request, or the orchard identifier, name,
  location, file and the warnings so far.
\<close>

definition request_checks ::
  "database \<Rightarrow> request \<Rightarrow> post_response + (string \<times> string \<times> string \<times> upload \<times> string list)"
where
  "request_checks d req =
     (if \<not> session req
      then Inl \<lparr>post_status = 401,
                post_body = ErrorBody ''Unauthorized. Please sign in.'' NoDetails\<rparr>
      else
        (case (form_name req, form_location req, form_pmtilesFile req) of
           (Some nm, Some loc, Some up) \<Rightarrow>
             if nm = [] \<or> loc = [] then Inl (missing_fields req)
             else
               let orchardId = orchardId_of nm in
               if orchardId = []
               then Inl \<lparr>post_status = 400,
                         post_body = ErrorBody
                           ''Invalid orchard name. Please use alphanumeric characters.''
                           NoDetails\<rparr>
               else if orchardExists d orchardId
               then Inl \<lparr>post_status = 409,
                         post_body = ErrorBody ''Orchard already exists''
                           (DetailsText (''An orchard with ID '' @ [CHR 0x22] @ orchardId
                              @ [CHR 0x22] @ '' already exists. Please use a different name.''))\<rparr>
               else if \<not> suffix ''.pmtiles'' (toLowerCase (file_name up))
               then Inl \<lparr>post_status = 400,
                         post_body = ErrorBody
                           ''Invalid file type. Please upload a .pmtiles file.'' NoDetails\<rparr>
               else if fileSizeInMB up > 2048
               then Inl \<lparr>post_status = 413,
                         post_body = ErrorBody ''File too large''
                           (DetailsText (''File size is '' @ toFixed 2 (fileSizeInMB up)
                              @ ''MB. Maximum allowed size is 2GB.''))\<rparr>
               else Inr (orchardId, nm, loc, up,
                         if fileSizeInMB up > 500
                         then [''Large file detected ('' @ toFixed 2 (fileSizeInMB up)
                               @ ''MB). Upload may take some time.'']
                         else [])
         | _ \<Rightarrow> Inl (missing_fields req)))"

definition tempFilePath :: "string \<Rightarrow> nat \<Rightarrow> string" where
  "tempFilePath cwd now = path_join [cwd, ''tmp'', ''temp-'' @ decimal now @ ''.pmtiles'']"

definition finalPath :: "string \<Rightarrow> string \<Rightarrow> string" where
  "finalPath cwd orchardId =
     path_join [cwd, ''public'', ''orchards'', orchardId, ''tiles'', ''orthomap.pmtiles'']"

definition orchardsFilePath :: "string \<Rightarrow> string" where
  "orchardsFilePath cwd = path_join [cwd, ''lib'', ''orchards.ts'']"

text \<open>
  \<open>updateOrchardsConfig\<close> reads the registry file, finds the \<open>orchards\<close> object in it with
  a regular expression, appends the entry of the new orchard and writes the file. The
  text computed from the old text (the match, the entry and the replacement) is the
  parameter \<open>rw\<close>, \<open>None\<close> when the object is not found. The result is the files after the
  call, or the message of the exception.
\<close>

type_synonym rewrite = "string \<Rightarrow> string \<Rightarrow> string \<Rightarrow> string \<Rightarrow> Metadata \<Rightarrow> string option"

definition updateOrchardsConfig ::
  "rewrite \<Rightarrow> string \<Rightarrow> (string \<Rightarrow> string option) \<Rightarrow> string \<Rightarrow> string \<Rightarrow> string \<Rightarrow> Metadata
     \<Rightarrow> string + (string \<Rightarrow> string option)"
where
  "updateOrchardsConfig rw cwd fs orchardId nm loc md =
     (case fs (orchardsFilePath cwd) of
        None \<Rightarrow> Inl (''ENOENT: no such file or directory, open '' @ [CHR 0x27]
                     @ orchardsFilePath cwd @ [CHR 0x27])
      | Some fileContent \<Rightarrow>
          (case rw fileContent orchardId nm loc md of
             None \<Rightarrow> Inl ''Could not find orchards object in orchards.ts''
           | Some updatedContent \<Rightarrow> Inr (fs(orchardsFilePath cwd \<mapsto> updatedContent))))"

text \<open>
  The pmtiles package is a parameter: from the files and the URL of the archive it
  gives what \<open>getHeader\<close> resolves to, or the message of the exception.
\<close>

type_synonym pmtiles = "(string \<Rightarrow> string option) \<Rightarrow> string \<Rightarrow> string + PMTilesHeader option"

text \<open>
  The body of the inner \<open>try\<close>: the state it leaves, and the response it returns
  (\<open>Inr\<close>) or the message of the exception it throws (\<open>Inl\<close>).
\<close>

definition ingest ::
  "pmtiles \<Rightarrow> rewrite \<Rightarrow> (real \<Rightarrow> string) \<Rightarrow> string \<Rightarrow> nat \<Rightarrow> world
     \<Rightarrow> string \<times> string \<times> string \<times> upload \<times> string list
     \<Rightarrow> world \<times> (string + post_response)"
where
  "ingest getHeader rw other cwd now w checked =
     (case checked of (orchardId, nm, loc, up, warnings0) \<Rightarrow>
      let tmp = tempFilePath cwd now;
          w1 = w\<lparr>files := (files w)(tmp \<mapsto> content up)\<rparr>;
          validation = validatePMTilesFile other (getHeader (files w1) (''file://'' @ tmp))
      in
      if \<not> valid validation
      then (w1, Inr \<lparr>post_status = 400,
                     post_body = ErrorBody
                       (case error validation of
                          Some e \<Rightarrow> if e = [] then ''Invalid PMTiles file'' else e
                        | None \<Rightarrow> ''Invalid PMTiles file'')
                       NoDetails\<rparr>)
      else
        let warnings1 =
              (case warnings validation of Some ws \<Rightarrow> warnings0 @ ws | None \<Rightarrow> warnings0)
        in
        (case metadata validation of
           None \<Rightarrow>
             (w1, Inr \<lparr>post_status = 400,
                       post_body = ErrorBody ''Could not extract metadata from PMTiles file''
                         NoDetails\<rparr>)
         | Some md \<Rightarrow>
             let w2 = w1\<lparr>files := (files w1)(tmp := None, finalPath cwd orchardId := files w1 tmp)\<rparr>
             in
             (case insertOrchard (db w2)
                     \<lparr>id_col = orchardId, name = nm, location = loc,
                      center_lat = lat (center md), center_lng = lng (center md)\<rparr> of
                Inl message \<Rightarrow> (w2, Inl message)
              | Inr db' \<Rightarrow>
                  let w3 = w2\<lparr>db := db'\<rparr> in
                  (case updateOrchardsConfig rw cwd (files w3) orchardId nm loc md of
                     Inl message \<Rightarrow> (w3, Inl message)
                   | Inr files' \<Rightarrow>
                       (w3\<lparr>files := files'\<rparr>,
                        Inr \<lparr>post_status = 200,
                             post_body = SuccessBody orchardId
                               (''Orchard '' @ [CHR 0x22] @ nm @ [CHR 0x22]
                                @ '' created successfully'')
                               (if length warnings1 > 0 then Some warnings1 else None)
                               md (toFixed 2 (fileSizeInMB up))\<rparr>)))))"

text \<open>
  The handler: the checks, the inner \<open>try\<close>, its \<open>finally\<close> (the temporary file is
  unlinked whatever happened) and the outer \<open>catch\<close> (an exception becomes status 500).
\<close>

definition POST ::
  "pmtiles \<Rightarrow> rewrite \<Rightarrow> (real \<Rightarrow> string) \<Rightarrow> string \<Rightarrow> nat \<Rightarrow> world \<Rightarrow> request
     \<Rightarrow> world \<times> post_response"
where
  "POST getHeader rw other cwd now w req =
     (case request_checks (db w) req of
        Inl r \<Rightarrow> (w, r)
      | Inr checked \<Rightarrow>
          (case ingest getHeader rw other cwd now w checked of
             (w', outcome) \<Rightarrow>
               (w'\<lparr>files := (files w')(tempFilePath cwd now := None)\<rparr>,
                case outcome of
                  Inr r \<Rightarrow> r
                | Inl message \<Rightarrow>
                    \<lparr>post_status = 500,
                     post_body = ErrorBody ''Failed to create orchard'' (DetailsText message)\<rparr>)))"

subsection \<open>The tile types of the archive format (scripts: quick check of PMTiles type)\<close>

text \<open>
  The script reads the tile type byte of the header, names it with its table \<open>types\<close>
  and says which types are imagery.
\<close>

definition types :: "nat \<Rightarrow> string option" where
  "types t =
     map_of [(0, ''Unknown''), (1, ''MVT (Mapbox Vector Tiles)''), (2, ''PNG''),
             (3, ''JPEG''), (4, ''WEBP''), (5, ''AVIF'')] t"

datatype data_kind = VECTOR_data | RASTER_data | Unknown_tile_type

definition quick_check :: "nat \<Rightarrow> data_kind" where
  "quick_check t =
     (if t = 1 then VECTOR_data
      else if t \<ge> 2 \<and> t \<le> 5 then RASTER_data
      else Unknown_tile_type)"


subsection \<open>Row conventions, as the specification words them\<close>

text \<open>
  The specification's row reconciliation, for comparison with \<open>tmsY\<close>: under the
  convention with the origin in the south-west, row \<open>r\<close> of \<open>N\<close> rows is stored as row
  \<open>N - 1 - r\<close>; under the convention with the origin in the north-west it is stored as
  \<open>r\<close>. The route has no such convention among its data.
\<close>

datatype row_convention = origin_north_west | origin_south_west

definition reconciled_row :: "row_convention \<Rightarrow> int \<Rightarrow> int \<Rightarrow> int" where
  "reconciled_row convention N r =
     (case convention of origin_south_west \<Rightarrow> N - 1 - r | origin_north_west \<Rightarrow> r)"

subsection \<open>Data bases for the examples\<close>

text \<open>
  An archive of the table whose rows are numbered from the south: at zoom 1, which has
  two rows, its one tile is in column 0 of the northern row, stored as row 1.
\<close>

definition south_west_archive :: sqlite where
  "south_west_archive file z x y =
     (if file = Str ''/app/public/orchards/washington/tiles/orthomap.mbtiles''
         \<and> z = Some 1 \<and> x = Some 0 \<and> y = Some 1
      then Inr (Some (Some [0x89, 0x50]))
      else Inr None)"

text \<open>
  Data bases without any tile, behind a package that raises \<open>String expected\<close> when
  the file name it is given is not a string.
\<close>

definition no_tiles :: sqlite where
  "no_tiles file z x y =
     (case file of Str p \<Rightarrow> Inr None | _ \<Rightarrow> Inl ''String expected'')"

subsection \<open>Parameters for the examples\<close>

text \<open>
  A rendering for the numbers that are not small integers (the examples render none),
  and a registry without an \<open>orchards\<close> object to rewrite.
\<close>

definition blank :: "real \<Rightarrow> string" where
  "blank x = []"

definition no_rewrite :: rewrite where
  "no_rewrite fileContent orchardId nm loc md = None"

subsection \<open>A header for the examples\<close>

text \<open>
  The header of an orchard orthomosaic: a few hundred metres of bounds, no center, tile
  type code 1.
\<close>

definition sample_header :: PMTilesHeader where
  "sample_header =
     \<lparr>minZoom = 5, maxZoom = 20,
      minLon = Some (-123.169), minLat = Some 48.141,
      maxLon = Some (-123.167), maxLat = Some 48.142,
      centerZoom = 0, centerLon = None, centerLat = None, tileType = 1\<rparr>"

text \<open>
  An upload for the examples: a signed-in request with a name, a location and a file,
  a store without this orchard, and a package that reads a header of tile type 7 from
  any file that exists.
\<close>

definition example_world :: world where
  "example_world =
     \<lparr>db = \<lparr>orchards = [], trees = []\<rparr>,
      files = [''/app/lib/orchards.ts'' \<mapsto> ''export const orchards = {};'']\<rparr>"

definition example_request :: request where
  "example_request =
     \<lparr>session = True, form_name = Some ''Hill 7'', form_location = Some ''WA'',
      form_pmtilesFile = Some \<lparr>file_name = ''Ortho.PMTiles'', content = ''PMTiles''\<rparr>\<rparr>"

definition type_7_archive :: pmtiles where
  "type_7_archive fs url =
     (case fs (drop 7 url) of
        None \<Rightarrow> Inl ''fetch failed''
      | Some bytes \<Rightarrow> Inr (Some (sample_header\<lparr>tileType := 7\<rparr>)))"

text \<open>
  The same package over an archive with the header of the examples, and a registry
  rewrite that appends the identifier to the file.
\<close>

definition type_1_archive :: pmtiles where
  "type_1_archive fs url =
     (case fs (drop 7 url) of
        None \<Rightarrow> Inl ''fetch failed''
      | Some bytes \<Rightarrow> Inr (Some sample_header))"

definition append_id :: rewrite where
  "append_id fileContent orchardId nm loc md = Some (fileContent @ orchardId)"


section \<open>Rendering of numbers\<close>

lemma num_str_3: "num_str other 3 = ''3''"
  by (simp add: num_str_def signed_decimal_def decimal_def decimal_digits.simps digit_char_def)

lemma num_str_7: "num_str other 7 = ''7''"
  by (simp add: num_str_def signed_decimal_def decimal_def decimal_digits.simps digit_char_def)

lemma num_str_25: "num_str other 25 = ''25''"
  by (simp add: num_str_def signed_decimal_def decimal_def decimal_digits.simps digit_char_def)


section \<open>Validation policy\<close>

lemma zoom_warning_not_vector: "zoom_warning other z \<noteq> vector_warning"
  by (simp add: zoom_warning_def vector_warning_def)

lemma zoom_warning_not_world: "zoom_warning other z \<noteq> world_warning"
  by (simp add: zoom_warning_def world_warning_def)

lemma zoom_warning_mentions:
  "sublist (num_str other z) (zoom_warning other z) \<and> sublist ''21.5'' (zoom_warning other z)"
proof
  show "sublist (num_str other z) (zoom_warning other z)"
    unfolding zoom_warning_def by (rule sublist_appendI)
  have "zoom_warning other z
          = ''Max zoom capped at '' @ ''21.5'' @ ('' (was '' @ num_str other z
              @ '') to prevent map rendering issues.'')"
    by (simp add: zoom_warning_def)
  then show "sublist ''21.5'' (zoom_warning other z)"
    by (simp only: sublist_appendI)
qed

text \<open>
  Claim C5. A header that passes the tile-type rule and whose bounds reach -180 and 180
  in longitude and -85 and 85 in latitude (so all four are present) is valid, has no
  error, carries metadata, and its warnings include the one about world bounds.
\<close>

theorem world_bounds_warning:
  assumes "tileType h = 1 \<or> tileType h = 2"
    and "minLon h = Some w" and "w \<le> -180"
    and "maxLon h = Some e" and "e \<ge> 180"
    and "minLat h = Some s" and "s \<le> -85"
    and "maxLat h = Some n" and "n \<ge> 85"
  shows "valid (validatePMTilesFile other (Inr (Some h)))
       \<and> error (validatePMTilesFile other (Inr (Some h))) = None
       \<and> metadata (validatePMTilesFile other (Inr (Some h))) \<noteq> None
       \<and> (\<exists>ws. warnings (validatePMTilesFile other (Inr (Some h))) = Some ws
               \<and> world_warning \<in> set ws)"
  using assms by (auto simp add: validatePMTilesFile_def Let_def)

theorem world_bounds_warning_witness:
  "tileType (sample_header\<lparr>minLon := Some (-180), minLat := Some (-90),
                           maxLon := Some 180, maxLat := Some 90\<rparr>) = 1
   \<and> validatePMTilesFile blank
        (Inr (Some (sample_header\<lparr>minLon := Some (-180), minLat := Some (-90),
                                  maxLon := Some 180, maxLat := Some 90\<rparr>)))
       = \<lparr>valid = True, error = None, warnings = Some [world_warning],
          metadata = Some
            \<lparr>bounds = \<lparr>b_minLng = -180, b_minLat = -90, b_maxLng = 180, b_maxLat = 90\<rparr>,
             center = \<lparr>lng = 0, lat = 0\<rparr>,
             md_minZoom = 5, md_maxZoom = 20, md_tileType = raster\<rparr>\<rparr>"
  using world_bounds_warning
          [where h = "sample_header\<lparr>minLon := Some (-180), minLat := Some (-90),
                                   maxLon := Some 180, maxLat := Some 90\<rparr>"
             and w = "-180" and e = 180 and s = "-90" and n = 90 and other = blank]
  by (simp add: sample_header_def validatePMTilesFile_def Let_def)



text \<open>
  The check of lib/pmtiles-utils.ts gives no metadata when it is not valid, and when it
  is valid it gives the metadata of the package as it is.
\<close>

lemma validatePMTiles_result:
  "\<not> check_valid (validatePMTiles (Inl message))
   \<and> check_metadata (validatePMTiles (Inl message)) = None
   \<and> check_valid (validatePMTiles (Inr parsed))
   \<and> check_metadata (validatePMTiles (Inr parsed)) = parsed"
  by (simp add: validatePMTiles_def)


section \<open>Tile server\<close>

text \<open>
  Claim C9. The content type is a function of the first two bytes of the tile: PNG for
  89 50, JPEG for FF D8, WEBP for 52 49, the generic binary type for anything else (a
  tile shorter than two bytes too); and the \<open>Content-Type\<close> header of a response that
  serves a tile is the content type of the bytes served.
\<close>

theorem contentType_magic:
  "contentType tileData =
     (if take 2 tileData = [0x89, 0x50] then ''image/png''
      else if take 2 tileData = [0xFF, 0xD8] then ''image/jpeg''
      else if take 2 tileData = [0x52, 0x49] then ''image/webp''
      else ''application/octet-stream'')
   \<and> map_of (headers (GET sq other cwd orchard zoom tileX tileY)) ''Content-Type''
       = (case body (GET sq other cwd orchard zoom tileX tileY) of
            Binary served \<Rightarrow> Some (contentType served)
          | Text t \<Rightarrow> None)"
proof
  show "contentType tileData =
     (if take 2 tileData = [0x89, 0x50] then ''image/png''
      else if take 2 tileData = [0xFF, 0xD8] then ''image/jpeg''
      else if take 2 tileData = [0x52, 0x49] then ''image/webp''
      else ''application/octet-stream'')"
  proof (cases tileData)
    case Nil
    then show ?thesis by (simp add: contentType_def byte_at_def)
  next
    case (Cons b0 rest)
    show ?thesis
    proof (cases rest)
      case Nil
      with Cons show ?thesis by (simp add: contentType_def byte_at_def)
    next
      case (Cons b1 rest')
      with \<open>tileData = b0 # rest\<close> show ?thesis
        by (simp add: contentType_def byte_at_def)
    qed
  qed
next
  show "map_of (headers (GET sq other cwd orchard zoom tileX tileY)) ''Content-Type''
       = (case body (GET sq other cwd orchard zoom tileX tileY) of
            Binary served \<Rightarrow> Some (contentType served)
          | Text t \<Rightarrow> None)"
    by (simp add: GET_def Let_def split: sum.split option.split)
qed

theorem contentType_magic_witness:
  "contentType [0x89, 0x50, 0x4E, 0x47] = ''image/png''
   \<and> contentType [0xFF, 0xD8, 0xFF] = ''image/jpeg''
   \<and> contentType [0x52, 0x49, 0x46, 0x46] = ''image/webp''
   \<and> contentType [0x47, 0x49, 0x46] = ''application/octet-stream''
   \<and> contentType [0x89] = ''application/octet-stream''
   \<and> map_of (headers (GET south_west_archive blank ''/app'' ''washington''
                        (Some 1) (Some 0) (Some 1))) ''Content-Type'' = Some ''image/png''"
  using contentType_magic [of "[0x89, 0x50, 0x4E, 0x47]" south_west_archive blank "''/app''"
                             "''washington''" "Some 1" "Some 0" "Some 1"]
    contentType_magic [of "[0xFF, 0xD8, 0xFF]" south_west_archive blank "''/app''"
                             "''washington''" "Some 1" "Some 0" "Some 1"]
    contentType_magic [of "[0x52, 0x49, 0x46, 0x46]" south_west_archive blank "''/app''"
                             "''washington''" "Some 1" "Some 0" "Some 1"]
    contentType_magic [of "[0x47, 0x49, 0x46]" south_west_archive blank "''/app''"
                             "''washington''" "Some 1" "Some 0" "Some 1"]
    contentType_magic [of "[0x89, 0x50]" south_west_archive blank "''/app''"
                             "''washington''" "Some 1" "Some 0" "Some 1"]
    contentType_magic [of "[0x89]" south_west_archive blank "''/app''"
                             "''washington''" "Some 1" "Some 0" "Some 1"]
  by (simp add: GET_def object_get_def MBTILES_PATHS_def south_west_archive_def tmsY_def)

section \<open>Tree identifiers\<close>

text \<open>
  Claim C10. The identifier is the orchard id, \<open>-R\<close>, the row id padded with zeros on
  the left to two characters, \<open>-P\<close>, and the position padded to three. So the row ids
  \<open>1\<close> and \<open>01\<close>, which are different strings, give the same identifier for the same
  orchard and position, while the duplicate check, which asks for a tree with equal
  orchard, row id and position, finds a tree stored under row \<open>1\<close> for row \<open>1\<close> and not
  for row \<open>01\<close>.
\<close>

theorem generateTreeId_row_padding:
  "generateTreeId other oid rid pos
     = oid @ ''-R'' @ replicate (2 - length rid) CHR ''0'' @ rid
       @ ''-P'' @ replicate (3 - length (num_str other (of_int pos))) CHR ''0''
       @ num_str other (of_int pos)
   \<and> ''1'' \<noteq> ''01''
   \<and> generateTreeId other oid ''1'' pos = generateTreeId other oid ''01'' pos
   \<and> \<not> checkDuplicateRowPosition
         \<lparr>orchards = os,
          trees = [\<lparr>tree_id = generateTreeId other oid ''1'' pos, orchard_id = Some oid,
                    row_id = Some ''1'', position = Some pos\<rparr>]\<rparr>
         oid ''01'' pos
   \<and> checkDuplicateRowPosition
         \<lparr>orchards = os,
          trees = [\<lparr>tree_id = generateTreeId other oid ''1'' pos, orchard_id = Some oid,
                    row_id = Some ''1'', position = Some pos\<rparr>]\<rparr>
         oid ''1'' pos
   \<and> (checkDuplicateRowPosition d oid rid pos
        \<longleftrightarrow> (\<exists>t \<in> set (trees d).
               orchard_id t = Some oid \<and> row_id t = Some rid \<and> position t = Some pos))"
  by (auto simp add: generateTreeId_def padStart_def checkDuplicateRowPosition_def
        filter_empty_conv)

theorem generateTreeId_row_padding_witness:
  "generateTreeId blank ''washington'' ''1'' 1 = ''washington-R01-P001''
   \<and> generateTreeId blank ''washington'' ''01'' 1 = ''washington-R01-P001''
   \<and> \<not> checkDuplicateRowPosition
         \<lparr>orchards = [],
          trees = [\<lparr>tree_id = ''washington-R01-P001'', orchard_id = Some ''washington'',
                    row_id = Some ''1'', position = Some 1\<rparr>]\<rparr>
         ''washington'' ''01'' 1
   \<and> insertTree blank
         \<lparr>orchards = [\<lparr>id_col = ''washington'', name = ''Washington Orchard'',
                        location = ''Washington State, USA'',
                        center_lat = 48.113935, center_lng = -123.264154\<rparr>],
          trees = [\<lparr>tree_id = ''washington-R01-P001'', orchard_id = Some ''washington'',
                    row_id = Some ''1'', position = Some 1\<rparr>]\<rparr>
         ''washington'' ''01'' (Some 1) = Inl DatabaseRejected"
proof -
  have one: "num_str blank 1 = ''1''"
    by (simp add: num_str_def signed_decimal_def decimal_def decimal_digits.simps digit_char_def)
  from generateTreeId_row_padding
         [where other = blank and oid = "''washington''" and rid = "''1''" and pos = 1
            and os = "[]"] one
  show ?thesis
    by (simp add: generateTreeId_def padStart_def checkDuplicateRowPosition_def insertTree_def
          Let_def eval_nat_numeral)
qed

section \<open>Validation policy: tile types and the zoom cap\<close>

text \<open>
  Claim C2, at a JPEG archive. The format's tile types are those of the script's table:
  1 is MVT, 2 to 5 are the image codecs. Validation compares the type with 1 and 2
  only: the JPEG header (type 3) is refused as unsupported, with the number 3 in the
  error, and the MVT header (type 1) is accepted without any warning.
\<close>

theorem validate_rejects_jpeg:
  "types 3 = Some ''JPEG'' \<and> quick_check 3 = RASTER_data
   \<and> validatePMTilesFile other (Inr (Some (sample_header\<lparr>tileType := 3\<rparr>)))
       = \<lparr>valid = False,
          error = Some ''Unsupported tile type: 3. Expected raster (1) or vector (2).'',
          warnings = None, metadata = None\<rparr>
   \<and> types 1 = Some ''MVT (Mapbox Vector Tiles)'' \<and> quick_check 1 = VECTOR_data
   \<and> valid (validatePMTilesFile other (Inr (Some (sample_header\<lparr>tileType := 1\<rparr>))))
   \<and> warnings (validatePMTilesFile other (Inr (Some (sample_header\<lparr>tileType := 1\<rparr>)))) = None"
  by (simp add: types_def quick_check_def validatePMTilesFile_def invalid_def sample_header_def
        num_str_3 Let_def)

text \<open>
  Claim C4, at a PNG archive (type 2, an image codec in the script's table) with all
  four bounds, bounds of a few hundred metres, no center and maximal zoom 20: validation
  accepts it, but as a vector archive and with the warning for vector archives. The
  center is the midpoint of the bounds.
\<close>

theorem validate_png_warns:
  "types 2 = Some ''PNG'' \<and> quick_check 2 = RASTER_data
   \<and> validatePMTilesFile other (Inr (Some (sample_header\<lparr>tileType := 2\<rparr>)))
       = \<lparr>valid = True, error = None, warnings = Some [vector_warning],
          metadata = Some
            \<lparr>bounds = \<lparr>b_minLng = -123.169, b_minLat = 48.141,
                       b_maxLng = -123.167, b_maxLat = 48.142\<rparr>,
             center = \<lparr>lng = -123.168, lat = 48.1415\<rparr>,
             md_minZoom = 5, md_maxZoom = 20, md_tileType = vector\<rparr>\<rparr>"
  by (simp add: types_def quick_check_def validatePMTilesFile_def sample_header_def Let_def)

text \<open>
  What validation does with a header of type code 1, the code it takes for raster
  imagery: with all four bounds, bounds that do not span the world and maximal zoom at
  most 21.5 the header is valid without warnings, and a center coordinate that the
  header omits is the midpoint of the bounds.
\<close>

lemma type_code_1_accepted_silently:
  assumes "tileType h = 1"
    and "minLon h = Some w" and "minLat h = Some s"
    and "maxLon h = Some e" and "maxLat h = Some n"
    and "\<not> (w \<le> -180 \<and> e \<ge> 180 \<and> s \<le> -85 \<and> n \<ge> 85)"
    and "maxZoom h \<le> 21.5"
  shows "validatePMTilesFile other (Inr (Some h))
       = \<lparr>valid = True, error = None, warnings = None,
          metadata = Some
            \<lparr>bounds = \<lparr>b_minLng = w, b_minLat = s, b_maxLng = e, b_maxLat = n\<rparr>,
             center = \<lparr>lng = (case centerLon h of Some c \<Rightarrow> c | None \<Rightarrow> (w + e) / 2),
                       lat = (case centerLat h of Some c \<Rightarrow> c | None \<Rightarrow> (s + n) / 2)\<rparr>,
             md_minZoom = minZoom h, md_maxZoom = maxZoom h, md_tileType = raster\<rparr>\<rparr>"
  using assms by (auto simp add: validatePMTilesFile_def Let_def)

text \<open>
  Claim C3 as it is stated fails: a header with maximal zoom 25 and tile type 7 is not
  valid and carries no metadata, since the tile-type rule comes first.
\<close>

theorem maxZoom_all_headers_counterexample:
  "maxZoom (sample_header\<lparr>tileType := 7, maxZoom := 25\<rparr>) > 21.5
   \<and> validatePMTilesFile blank (Inr (Some (sample_header\<lparr>tileType := 7, maxZoom := 25\<rparr>)))
       = \<lparr>valid = False,
          error = Some ''Unsupported tile type: 7. Expected raster (1) or vector (2).'',
          warnings = None, metadata = None\<rparr>"
  by (simp add: validatePMTilesFile_def invalid_def sample_header_def num_str_7)

text \<open>
  Claim C3, amended. For a header that passes the tile-type rule and has all four
  bounds: when its maximal zoom exceeds 21.5, validation succeeds, the metadata has
  maximal zoom 21.5, and among the warnings is one that contains the original value and
  21.5; when it is at most 21.5, validation succeeds, the value is passed through and no
  warning about the cap is given.
\<close>

theorem maxZoom_capped:
  assumes "tileType h = 1 \<or> tileType h = 2"
    and "minLon h = Some w" and "minLat h = Some s"
    and "maxLon h = Some e" and "maxLat h = Some n"
  shows "(maxZoom h > 21.5 \<longrightarrow>
            valid (validatePMTilesFile other (Inr (Some h)))
          \<and> (\<exists>md. metadata (validatePMTilesFile other (Inr (Some h))) = Some md
                   \<and> md_maxZoom md = 21.5)
          \<and> (\<exists>ws. warnings (validatePMTilesFile other (Inr (Some h))) = Some ws
                   \<and> zoom_warning other (maxZoom h) \<in> set ws)
          \<and> sublist (num_str other (maxZoom h)) (zoom_warning other (maxZoom h))
          \<and> sublist ''21.5'' (zoom_warning other (maxZoom h)))
       \<and> (maxZoom h \<le> 21.5 \<longrightarrow>
            valid (validatePMTilesFile other (Inr (Some h)))
          \<and> (\<exists>md. metadata (validatePMTilesFile other (Inr (Some h))) = Some md
                   \<and> md_maxZoom md = maxZoom h)
          \<and> (\<forall>z. zoom_warning other z
                   \<notin> set (case warnings (validatePMTilesFile other (Inr (Some h))) of
                            Some ws \<Rightarrow> ws | None \<Rightarrow> [])))"
  using assms zoom_warning_mentions [of other "maxZoom h"]
  by (auto simp add: validatePMTilesFile_def Let_def zoom_warning_not_vector
        zoom_warning_not_world)

theorem maxZoom_capped_witness:
  "tileType (sample_header\<lparr>maxZoom := 25\<rparr>) = 1
   \<and> maxZoom (sample_header\<lparr>maxZoom := 25\<rparr>) > 21.5
   \<and> validatePMTilesFile blank (Inr (Some (sample_header\<lparr>maxZoom := 25\<rparr>)))
       = \<lparr>valid = True, error = None,
          warnings = Some [''Max zoom capped at 21.5 (was 25) to prevent map rendering issues.''],
          metadata = Some
            \<lparr>bounds = \<lparr>b_minLng = -123.169, b_minLat = 48.141,
                       b_maxLng = -123.167, b_maxLat = 48.142\<rparr>,
             center = \<lparr>lng = -123.168, lat = 48.1415\<rparr>,
             md_minZoom = 5, md_maxZoom = 21.5, md_tileType = raster\<rparr>\<rparr>
   \<and> sublist ''25'' (zoom_warning blank 25)
   \<and> sublist ''21.5'' (zoom_warning blank 25)
   \<and> maxZoom sample_header \<le> 21.5
   \<and> validatePMTilesFile blank (Inr (Some sample_header))
       = \<lparr>valid = True, error = None, warnings = None,
          metadata = Some
            \<lparr>bounds = \<lparr>b_minLng = -123.169, b_minLat = 48.141,
                       b_maxLng = -123.167, b_maxLat = 48.142\<rparr>,
             center = \<lparr>lng = -123.168, lat = 48.1415\<rparr>,
             md_minZoom = 5, md_maxZoom = 20, md_tileType = raster\<rparr>\<rparr>"
  using maxZoom_capped
          [where h = "sample_header\<lparr>maxZoom := 25\<rparr>" and other = blank
             and w = "-123.169" and s = "48.141" and e = "-123.167" and n = "48.142"]
    maxZoom_capped
          [where h = sample_header and other = blank
             and w = "-123.169" and s = "48.141" and e = "-123.167" and n = "48.142"]
  by (simp add: sample_header_def validatePMTilesFile_def Let_def zoom_warning_def num_str_25)

section \<open>Tile server: the row and the archive looked up\<close>

lemma MBTILES_PATHS_truthy:
  assumes "map_of (MBTILES_PATHS cwd) orchard = Some p"
  shows "object_get (MBTILES_PATHS cwd) orchard = Str p \<and> p \<noteq> []"
  using assms by (auto simp add: object_get_def MBTILES_PATHS_def split: if_splits)

text \<open>
  Claim C1 as it is stated fails. For the archive numbered from the south, the request
  for row 0 at zoom 1 should be resolved to the stored row \<open>2 - 1 - 0 = 1\<close>, where the
  archive has a tile; the route looks up row 0 and answers that there is no tile.
\<close>

theorem GET_no_row_transform_counterexample:
  "reconciled_row origin_south_west 2 0 = 1
   \<and> south_west_archive (object_get (MBTILES_PATHS ''/app'') ''washington'')
        (Some 1) (Some 0) (Some (reconciled_row origin_south_west 2 0))
       = Inr (Some (Some [0x89, 0x50]))
   \<and> GET south_west_archive blank ''/app'' ''washington'' (Some 1) (Some 0) (Some 0)
       = \<lparr>status = 404, body = Text ''Tile not found: 1/0/0 (TMS: 0)'', headers = []\<rparr>"
  by (simp add: reconciled_row_def south_west_archive_def GET_def object_get_def
        MBTILES_PATHS_def tmsY_def int_str_def num_str_def signed_decimal_def
        decimal_def decimal_digits.simps digit_char_def)

text \<open>
  Claim C1, amended. For every archive of the table, whatever its convention, the row
  of the request is the row looked up: a tile stored under the key (zoom, column,
  requested row) is served, and when no row is stored under that key the answer is 404.
\<close>

theorem GET_row_as_requested:
  assumes "map_of (MBTILES_PATHS cwd) orchard = Some p"
  shows "tmsY tileY = tileY
       \<and> (\<forall>tile. sq (Str p) zoom tileX tileY = Inr (Some (Some tile)) \<longrightarrow>
             status (GET sq other cwd orchard zoom tileX tileY) = 200
           \<and> body (GET sq other cwd orchard zoom tileX tileY) = Binary tile)
       \<and> (sq (Str p) zoom tileX tileY = Inr None \<longrightarrow>
             status (GET sq other cwd orchard zoom tileX tileY) = 404)"
  using MBTILES_PATHS_truthy [OF assms]
  by (simp add: GET_def tmsY_def)

theorem GET_row_as_requested_witness:
  "map_of (MBTILES_PATHS ''/app'') ''washington''
     = Some ''/app/public/orchards/washington/tiles/orthomap.mbtiles''
   \<and> south_west_archive (Str ''/app/public/orchards/washington/tiles/orthomap.mbtiles'')
        (Some 1) (Some 0) (Some 1) = Inr (Some (Some [0x89, 0x50]))
   \<and> status (GET south_west_archive blank ''/app'' ''washington'' (Some 1) (Some 0) (Some 1)) = 200
   \<and> body (GET south_west_archive blank ''/app'' ''washington'' (Some 1) (Some 0) (Some 1))
       = Binary [0x89, 0x50]"
proof -
  have p: "map_of (MBTILES_PATHS ''/app'') ''washington''
     = Some ''/app/public/orchards/washington/tiles/orthomap.mbtiles''"
    by (simp add: MBTILES_PATHS_def)
  have t: "south_west_archive (Str ''/app/public/orchards/washington/tiles/orthomap.mbtiles'')
        (Some 1) (Some 0) (Some 1) = Inr (Some (Some [0x89, 0x50]))"
    by (simp add: south_west_archive_def)
  from GET_row_as_requested [OF p, of "Some 1" south_west_archive "Some 1" "Some 0" blank] p t
  show ?thesis by simp
qed

text \<open>
  Claim C8, at the identifier \<open>constructor\<close>. It is not a key of the table, but the
  lookup finds the property that every object inherits, which is not falsy, so the
  guard for unknown archives is passed: whatever the data base package does, the answer
  is not the one for an unknown archive. The data base is opened with a value that is
  not a file name, and with a package that raises an exception then, the answer is the
  exception's 500.
\<close>

theorem GET_inherited_key_not_404:
  "map_of (MBTILES_PATHS cwd) ''constructor'' = None
   \<and> object_get (MBTILES_PATHS cwd) ''constructor'' = Inherited ''constructor''
   \<and> GET sq other cwd ''constructor'' zoom tileX tileY
       \<noteq> \<lparr>status = 404,
           body = Text (''Orchard '' @ [CHR 0x27] @ ''constructor'' @ [CHR 0x27] @ '' not found''),
           headers = []\<rparr>
   \<and> GET no_tiles blank ''/app'' ''constructor'' (Some 14) (Some 100) (Some 200)
       = \<lparr>status = 500, body = Text ''String expected'', headers = []\<rparr>"
  by (simp add: GET_def object_get_def MBTILES_PATHS_def object_prototype_keys_def no_tiles_def
        split: sum.split option.split)

text \<open>
  The two answers 404: an identifier that the lookup does not find at all, and a key
  without a stored tile, where the text gives zoom, column and row.
\<close>

lemma GET_not_found:
  "object_get (MBTILES_PATHS cwd) orchard = Undefined \<Longrightarrow>
     GET sq other cwd orchard zoom tileX tileY
       = \<lparr>status = 404, body = Text (''Orchard '' @ [CHR 0x27] @ orchard @ [CHR 0x27] @ '' not found''),
          headers = []\<rparr>"
  "map_of (MBTILES_PATHS cwd) orchard = Some p \<Longrightarrow> sq (Str p) zoom tileX tileY = Inr None \<Longrightarrow>
     GET sq other cwd orchard zoom tileX tileY
       = \<lparr>status = 404,
          body = Text (''Tile not found: '' @ int_str other zoom @ ''/'' @ int_str other tileX
                       @ ''/'' @ int_str other tileY @ '' (TMS: '' @ int_str other tileY @ '')''),
          headers = []\<rparr>"
  using MBTILES_PATHS_truthy [of cwd orchard p]
  by (simp_all add: GET_def tmsY_def)


section \<open>Ingestion of an archive that fails validation\<close>

lemma tempFilePath_not_registry: "orchardsFilePath cwd \<noteq> tempFilePath cwd now"
  by (simp add: orchardsFilePath_def tempFilePath_def)

lemma invalid_has_message:
  assumes "\<not> valid (validatePMTilesFile other got)"
  shows "\<exists>msg. error (validatePMTilesFile other got) = Some msg \<and> msg \<noteq> []"
  using assms
  by (auto simp add: validatePMTilesFile_def invalid_def Let_def
        split: sum.splits option.splits if_splits)

lemma unsupported_type_named:
  assumes "tileType h \<noteq> 1" and "tileType h \<noteq> 2"
  shows "error (validatePMTilesFile other (Inr (Some h)))
           = Some (''Unsupported tile type: '' @ num_str other (tileType h)
                   @ ''. Expected raster (1) or vector (2).'')"
  using assms by (simp add: validatePMTilesFile_def invalid_def)

text \<open>
  Claim C7. When a request passes the checks that come before validation and validation
  of the uploaded archive fails, the response is status 400 with the error of the
  validation; the relational store is as before; the files are as before except that
  there is no file at the temporary path, so the registry file is as before and nothing
  is at the final path that was not there; and when the failure is the tile-type rule,
  the error text contains the tile type found.
\<close>

theorem invalid_upload_persists_nothing:
  assumes checks: "request_checks (db w) req = Inr (orchardId, nm, loc, up, warnings0)"
    and failed: "\<not> valid (validatePMTilesFile other
                   (getHeader ((files w)(tempFilePath cwd now \<mapsto> content up))
                      (''file://'' @ tempFilePath cwd now)))"
  shows "\<exists>msg. error (validatePMTilesFile other
                   (getHeader ((files w)(tempFilePath cwd now \<mapsto> content up))
                      (''file://'' @ tempFilePath cwd now))) = Some msg
          \<and> POST getHeader rw other cwd now w req
              = (w\<lparr>files := (files w)(tempFilePath cwd now := None)\<rparr>,
                 \<lparr>post_status = 400, post_body = ErrorBody msg NoDetails\<rparr>)
          \<and> db (fst (POST getHeader rw other cwd now w req)) = db w
          \<and> files (fst (POST getHeader rw other cwd now w req)) (orchardsFilePath cwd)
              = files w (orchardsFilePath cwd)
          \<and> files (fst (POST getHeader rw other cwd now w req)) (tempFilePath cwd now) = None
          \<and> (\<forall>h. getHeader ((files w)(tempFilePath cwd now \<mapsto> content up))
                      (''file://'' @ tempFilePath cwd now) = Inr (Some h)
                  \<and> tileType h \<noteq> 1 \<and> tileType h \<noteq> 2
                \<longrightarrow> sublist (num_str other (tileType h)) msg)"
proof -
  let ?got = "getHeader ((files w)(tempFilePath cwd now \<mapsto> content up))
                (''file://'' @ tempFilePath cwd now)"
  from invalid_has_message [OF failed]
  obtain msg where msg: "error (validatePMTilesFile other ?got) = Some msg" "msg \<noteq> []"
    by blast
  have post: "POST getHeader rw other cwd now w req
              = (w\<lparr>files := (files w)(tempFilePath cwd now := None)\<rparr>,
                 \<lparr>post_status = 400, post_body = ErrorBody msg NoDetails\<rparr>)"
    using checks failed msg by (simp add: POST_def ingest_def Let_def)
  have named: "sublist (num_str other (tileType h)) msg"
    if "?got = Inr (Some h)" "tileType h \<noteq> 1" "tileType h \<noteq> 2" for h
  proof -
    from that unsupported_type_named [of h other] msg(1)
    have "msg = ''Unsupported tile type: '' @ num_str other (tileType h)
                 @ ''. Expected raster (1) or vector (2).''"
      by simp
    then show ?thesis by (simp only: sublist_appendI)
  qed
  from msg(1) post named show ?thesis
    by (simp add: tempFilePath_not_registry)
qed

lemma example_orchardId: "orchardId_of ''Hill 7'' = ''hill-7''"
  by code_simp

lemma example_file_name: "toLowerCase ''Ortho.PMTiles'' = ''ortho.pmtiles''"
  by code_simp

lemma example_tempFilePath: "tempFilePath ''/app'' 42 = ''/app/tmp/temp-42.pmtiles''"
  by (simp add: tempFilePath_def decimal_def decimal_digits.simps digit_char_def)

lemma example_checks:
  "request_checks (db example_world) example_request
     = Inr (''hill-7'', ''Hill 7'', ''WA'',
            \<lparr>file_name = ''Ortho.PMTiles'', content = ''PMTiles''\<rparr>, [])"
  by (simp add: request_checks_def example_world_def example_request_def example_orchardId example_file_name
        orchardExists_def fileSizeInMB_def suffix_def)

theorem invalid_upload_persists_nothing_witness:
  "request_checks (db example_world) example_request
     = Inr (''hill-7'', ''Hill 7'', ''WA'',
            \<lparr>file_name = ''Ortho.PMTiles'', content = ''PMTiles''\<rparr>, [])
   \<and> \<not> valid (validatePMTilesFile blank
         (type_7_archive ((files example_world)(tempFilePath ''/app'' 42 \<mapsto> ''PMTiles''))
            (''file://'' @ tempFilePath ''/app'' 42)))
   \<and> POST type_7_archive no_rewrite blank ''/app'' 42 example_world example_request
       = (example_world\<lparr>files := (files example_world)(''/app/tmp/temp-42.pmtiles'' := None)\<rparr>,
          \<lparr>post_status = 400,
           post_body = ErrorBody ''Unsupported tile type: 7. Expected raster (1) or vector (2).''
             NoDetails\<rparr>)
   \<and> db (fst (POST type_7_archive no_rewrite blank ''/app'' 42 example_world
               example_request)) = \<lparr>orchards = [], trees = []\<rparr>
   \<and> files (fst (POST type_7_archive no_rewrite blank ''/app'' 42 example_world
               example_request)) ''/app/tmp/temp-42.pmtiles'' = None
   \<and> sublist ''7'' ''Unsupported tile type: 7. Expected raster (1) or vector (2).''"
proof -
  have got: "type_7_archive ((files example_world)(tempFilePath ''/app'' 42 \<mapsto> ''PMTiles''))
            (''file://'' @ tempFilePath ''/app'' 42) = Inr (Some (sample_header\<lparr>tileType := 7\<rparr>))"
    by (simp add: type_7_archive_def)
  have err: "validatePMTilesFile blank (Inr (Some (sample_header\<lparr>tileType := 7\<rparr>)))
       = \<lparr>valid = False,
          error = Some ''Unsupported tile type: 7. Expected raster (1) or vector (2).'',
          warnings = None, metadata = None\<rparr>"
    by (simp add: validatePMTilesFile_def invalid_def sample_header_def num_str_7)
  have failed: "\<not> valid (validatePMTilesFile blank
         (type_7_archive ((files example_world)(tempFilePath ''/app'' 42 \<mapsto> content \<lparr>file_name = ''Ortho.PMTiles'', content = ''PMTiles''\<rparr>))
            (''file://'' @ tempFilePath ''/app'' 42)))"
    using got err by simp
  have seven: "sublist ''7'' ''Unsupported tile type: 7. Expected raster (1) or vector (2).''"
    by (simp add: sublist_code)
  from invalid_upload_persists_nothing
         [where w = example_world and req = example_request and other = blank
            and getHeader = type_7_archive and cwd = "''/app''" and now = 42
            and rw = no_rewrite, OF example_checks failed]
    example_checks got err seven
  show ?thesis
    by (auto simp add: example_tempFilePath example_world_def)
qed

text \<open>
  For comparison, the same request with an archive that passes validation: the orchard
  is in the store, the archive is at its final path, the registry is rewritten, the
  temporary file is gone and the status is 200.
\<close>

lemma valid_upload_persists:
  "db (fst (POST type_1_archive append_id blank ''/app'' 42 example_world example_request))
     = \<lparr>orchards = [\<lparr>id_col = ''hill-7'', name = ''Hill 7'', location = ''WA'',
                      center_lat = 48.1415, center_lng = -123.168\<rparr>],
        trees = []\<rparr>
   \<and> files (fst (POST type_1_archive append_id blank ''/app'' 42 example_world example_request))
       ''/app/public/orchards/hill-7/tiles/orthomap.pmtiles'' = Some ''PMTiles''
   \<and> files (fst (POST type_1_archive append_id blank ''/app'' 42 example_world example_request))
       ''/app/lib/orchards.ts'' = Some ''export const orchards = {};hill-7''
   \<and> files (fst (POST type_1_archive append_id blank ''/app'' 42 example_world example_request))
       ''/app/tmp/temp-42.pmtiles'' = None
   \<and> post_status (snd (POST type_1_archive append_id blank ''/app'' 42 example_world
                         example_request)) = 200"
proof -
  have v: "validatePMTilesFile blank (Inr (Some sample_header))
       = \<lparr>valid = True, error = None, warnings = None,
          metadata = Some
            \<lparr>bounds = \<lparr>b_minLng = -123.169, b_minLat = 48.141,
                       b_maxLng = -123.167, b_maxLat = 48.142\<rparr>,
             center = \<lparr>lng = -123.168, lat = 48.1415\<rparr>,
             md_minZoom = 5, md_maxZoom = 20, md_tileType = raster\<rparr>\<rparr>"
    by (simp add: validatePMTilesFile_def sample_header_def Let_def)
  have d: "db example_world = \<lparr>orchards = [], trees = []\<rparr>"
    and f: "files example_world = [''/app/lib/orchards.ts'' \<mapsto> ''export const orchards = {};'']"
    by (simp_all add: example_world_def)
  note c = example_checks [unfolded d]
  show ?thesis
    by (simp add: POST_def ingest_def c example_tempFilePath type_1_archive_def v
          Let_def d f finalPath_def insertOrchard_def orchardExists_def
          updateOrchardsConfig_def orchardsFilePath_def append_id_def)
qed

end
